theory Spec2Isabelle
  imports Complex_Main
begin

section \<open>Heston calibration: the calibration engine of heston_calibration.py\<close>

text \<open>
  The script calibrates the Heston model to a table of option quotes. This theory embeds
  its loss evaluator, the differential-evolution callback with its early-stopping state,
  the L-BFGS-B callback, the parameter seed with its bounds, the market put/call parity
  check and the order of the stages of the script.

  Numbers: Python floats are modelled by the reals, extended with the IEEE special values
  where the script can produce or start from them (the best loss starts at \<open>np.inf\<close>, a
  division by zero inside numpy gives an infinity or a NaN, the mean of an empty array is
  NaN). Rounding and overflow are not modelled.

  The pricers (\<open>hp.vanilla_price\<close>), the Black-Scholes helpers and the two scipy
  optimizers are collaborators whose code is not part of the script; they are parameters
  of the definitions below.
\<close>

subsection \<open>Float values\<close>

datatype float_val = Num real | PosInf | NegInf | NaN

text \<open>Python's \<open>a < b\<close> on floats: every comparison with NaN is false.\<close>

fun fl_less :: "float_val \<Rightarrow> float_val \<Rightarrow> bool" where
  "fl_less (Num a) (Num b) = (a < b)"
| "fl_less (Num a) PosInf = True"
| "fl_less NegInf (Num b) = True"
| "fl_less NegInf PosInf = True"
| "fl_less _ _ = False"

text \<open>Python's \<open>a - b\<close> on floats.\<close>

fun fl_sub :: "float_val \<Rightarrow> float_val \<Rightarrow> float_val" where
  "fl_sub NaN _ = NaN"
| "fl_sub _ NaN = NaN"
| "fl_sub (Num a) (Num b) = Num (a - b)"
| "fl_sub (Num a) PosInf = NegInf"
| "fl_sub (Num a) NegInf = PosInf"
| "fl_sub PosInf PosInf = NaN"
| "fl_sub PosInf _ = PosInf"
| "fl_sub NegInf NegInf = NaN"
| "fl_sub NegInf _ = NegInf"

fun fl_add :: "float_val \<Rightarrow> float_val \<Rightarrow> float_val" where
  "fl_add NaN _ = NaN"
| "fl_add _ NaN = NaN"
| "fl_add (Num a) (Num b) = Num (a + b)"
| "fl_add PosInf NegInf = NaN"
| "fl_add NegInf PosInf = NaN"
| "fl_add PosInf _ = PosInf"
| "fl_add _ PosInf = PosInf"
| "fl_add NegInf _ = NegInf"
| "fl_add _ NegInf = NegInf"

fun fl_abs :: "float_val \<Rightarrow> float_val" where
  "fl_abs (Num a) = Num \<bar>a\<bar>"
| "fl_abs PosInf = PosInf"
| "fl_abs NegInf = PosInf"
| "fl_abs NaN = NaN"

text \<open>
  Python's builtin \<open>max(a, b)\<close>: it keeps the first argument unless the second compares
  greater.
\<close>

definition py_max :: "float_val \<Rightarrow> float_val \<Rightarrow> float_val" where
  "py_max a b = (if fl_less a b then b else a)"

datatype py_error = IndexError | ValueError | ZeroDivisionError

text \<open>
  Python's \<open>a / b\<close> on floats: a zero divisor raises, the special values follow IEEE.
\<close>

fun py_truediv :: "float_val \<Rightarrow> float_val \<Rightarrow> py_error + float_val" where
  "py_truediv NaN (Num b) = (if b = 0 then Inl ZeroDivisionError else Inr NaN)"
| "py_truediv NaN _ = Inr NaN"
| "py_truediv _ NaN = Inr NaN"
| "py_truediv (Num a) (Num b) = (if b = 0 then Inl ZeroDivisionError else Inr (Num (a / b)))"
| "py_truediv (Num a) PosInf = Inr (Num 0)"
| "py_truediv (Num a) NegInf = Inr (Num 0)"
| "py_truediv PosInf (Num b) =
     (if b = 0 then Inl ZeroDivisionError else if 0 < b then Inr PosInf else Inr NegInf)"
| "py_truediv NegInf (Num b) =
     (if b = 0 then Inl ZeroDivisionError else if 0 < b then Inr NegInf else Inr PosInf)"
| "py_truediv PosInf _ = Inr NaN"
| "py_truediv NegInf _ = Inr NaN"

text \<open>
  numpy's elementwise \<open>a / b\<close> on finite entries: a zero divisor does not raise, it gives
  NaN for \<open>0 / 0\<close> and an infinity otherwise (the sign shown is the one for a positive
  zero; the loss squares the quotient, which forgets the sign).
\<close>

definition np_divide :: "real \<Rightarrow> real \<Rightarrow> float_val" where
  "np_divide a b =
     (if b \<noteq> 0 then Num (a / b) else if a = 0 then NaN else if 0 < a then PosInf else NegInf)"

fun fl_square :: "float_val \<Rightarrow> float_val" where
  "fl_square (Num a) = Num (a ^ 2)"
| "fl_square PosInf = PosInf"
| "fl_square NegInf = PosInf"
| "fl_square NaN = NaN"

fun fl_div_count :: "float_val \<Rightarrow> nat \<Rightarrow> float_val" where
  "fl_div_count (Num s) n = Num (s / real n)"
| "fl_div_count v n = v"

text \<open>\<open>np.mean\<close>: the sum over the count; the mean of an empty array is NaN.\<close>

definition np_mean :: "float_val list \<Rightarrow> float_val" where
  "np_mean xs = (if xs = [] then NaN else fl_div_count (foldr fl_add xs (Num 0)) (length xs))"

text \<open>
  The mean of a pandas column (\<open>np.mean\<close> of a Series is \<open>Series.mean\<close>): NaN entries are
  skipped; the mean of a column with no other entry is NaN.
\<close>

definition pd_mean :: "float_val list \<Rightarrow> float_val" where
  "pd_mean xs =
     (let ys = filter (\<lambda>x. x \<noteq> NaN) xs
      in if ys = [] then NaN else fl_div_count (foldr fl_add ys (Num 0)) (length ys))"

subsection \<open>The quote table\<close>

datatype side = Call | Put

text \<open>One row of the data frame \<open>df\<close>, with the columns the engine reads.\<close>

record quote =
  Moneyness :: real
  To_expiry :: real
  Strike :: real
  Risk_Free :: real
  Impl_Yld :: real
  IV :: real
  Market_call_price :: real
  Market_put_price :: real
  Option_type :: side
  Market_price :: real
  Vega :: real

type_synonym heston_params = "real list"

text \<open>
  \<open>hp.vanilla_price(T, K, option_params, heston_params, option_type, N)\<close> called with a
  batch of strikes and sides sharing one maturity, and called with one strike and side.
\<close>

type_synonym batch_pricer =
  "real \<Rightarrow> real list \<Rightarrow> real \<times> real \<times> real \<Rightarrow> heston_params \<Rightarrow> side list \<Rightarrow> nat \<Rightarrow> real list"

type_synonym row_pricer =
  "real \<Rightarrow> real \<Rightarrow> real \<times> real \<times> real \<Rightarrow> heston_params \<Rightarrow> side \<Rightarrow> nat \<Rightarrow> real"

subsection \<open>numpy helpers used by the loss evaluator\<close>

text \<open>
  Broadcasting of a binary operation over two one-dimensional arrays: equal lengths go
  elementwise, a length-one array is stretched, anything else raises ValueError.
\<close>

definition broadcast2 :: "('a \<Rightarrow> 'b \<Rightarrow> 'c) \<Rightarrow> 'a list \<Rightarrow> 'b list \<Rightarrow> py_error + 'c list" where
  "broadcast2 f xs ys =
     (if length xs = length ys then Inr (map2 f xs ys)
      else if length ys = 1 then Inr (map (\<lambda>x. f x (ys ! 0)) xs)
      else if length xs = 1 then Inr (map (\<lambda>y. f (xs ! 0) y) ys)
      else Inl ValueError)"

text \<open>
  The fourth argument of \<open>loss_function\<close>: the scalar default, or whatever a caller passes
  in that position, a numpy array or a pandas column.
\<close>

datatype floor_arg = Scalar real | Array "real list" | Series "real list"

text \<open>The value bound to \<open>vega\<close>: a numpy array, or a pandas column when the floor is one.\<close>

datatype vega_array = Ndarray "real list" | PdSeries "real list"

text \<open>
  \<open>np.maximum(df["Vega"].to_numpy(), vega_floor)\<close>. With a pandas column as floor the
  values are broadcast as numpy does and the result is rebuilt on the column's index, which
  raises ValueError unless it has the column's length.
\<close>

definition np_maximum :: "real list \<Rightarrow> floor_arg \<Rightarrow> py_error + vega_array" where
  "np_maximum v fl =
     (case fl of
        Scalar c \<Rightarrow> Inr (Ndarray (map (\<lambda>x. max x c) v))
      | Array a \<Rightarrow> (case broadcast2 max v a of Inl e \<Rightarrow> Inl e | Inr m \<Rightarrow> Inr (Ndarray m))
      | Series a \<Rightarrow>
          (if length v = length a then Inr (PdSeries (map2 max v a))
           else if length v = 1 then Inr (PdSeries (map (\<lambda>y. max (v ! 0) y) a))
           else Inl ValueError))"

text \<open>\<open>np.unique\<close>: the distinct values, sorted.\<close>

definition np_unique :: "real list \<Rightarrow> real list" where
  "np_unique xs = sort (remdups xs)"

text \<open>\<open>np.where(T == Tj)[0]\<close>: the positions holding \<open>Tj\<close>, in increasing order.\<close>

definition np_where_eq :: "real list \<Rightarrow> real \<Rightarrow> nat list" where
  "np_where_eq T Tj = filter (\<lambda>i. T ! i = Tj) [0..<length T]"

text \<open>Fancy indexing \<open>a[idx]\<close> with \<open>idx\<close> from \<open>np_where_eq\<close> (always in range).\<close>

definition take_idx :: "'a list \<Rightarrow> nat list \<Rightarrow> 'a list" where
  "take_idx a idx = map (\<lambda>i. a ! i) idx"

text \<open>
  \<open>model_prices[idx] = pj\<close>: a batch of matching length is written position by position,
  a batch of length one is written to every position, any other shape raises ValueError.
\<close>

definition setitem :: "real list \<Rightarrow> nat list \<Rightarrow> real list \<Rightarrow> py_error + real list" where
  "setitem a idx pj =
     (if length pj = length idx then Inr (fold (\<lambda>(i, p) b. b[i := p]) (zip idx pj) a)
      else if length pj = 1 then Inr (fold (\<lambda>i b. b[i := pj ! 0]) idx a)
      else Inl ValueError)"

subsection \<open>The loss evaluator\<close>

text \<open>
  The loop over the unique maturities. The accumulator holds \<open>model_prices\<close> and the number
  of calls made to the pricer so far (the calls are the effect the loop has on the
  collaborator; the count is not a value of the script).
\<close>

fun price_by_maturity ::
  "batch_pricer \<Rightarrow> real \<Rightarrow> heston_params \<Rightarrow> real list \<Rightarrow> real list \<Rightarrow> real list \<Rightarrow> real list
     \<Rightarrow> side list \<Rightarrow> real list \<Rightarrow> real list \<times> nat \<Rightarrow> py_error + real list \<times> nat" where
  "price_by_maturity vp S0 hes T K r q opt_type [] acc = Inr acc"
| "price_by_maturity vp S0 hes T K r q opt_type (Tj # rest) (model_prices, calls) =
     (let idx = np_where_eq T Tj;
          Kj = take_idx K idx
      in case take_idx r idx of
           [] \<Rightarrow> Inl IndexError
         | rj # _ \<Rightarrow>
            (case take_idx q idx of
               [] \<Rightarrow> Inl IndexError
             | qj # _ \<Rightarrow>
                (let optj = take_idx opt_type idx;
                     pj = vp Tj Kj (S0, rj, qj) hes optj 185
                 in case setitem model_prices idx pj of
                      Inl e \<Rightarrow> Inl e
                    | Inr mp \<Rightarrow>
                        price_by_maturity vp S0 hes T K r q opt_type rest (mp, calls + 1))))"

text \<open>
  \<open>np.mean(((market_prices - model_prices) / vega) ** 2)\<close>. When \<open>vega\<close> is a pandas column
  the quotient and its square are columns on the same index (the quotient must have the
  column's length) and the mean is the column's mean.
\<close>

definition weighted_mse :: "real list \<Rightarrow> real list \<Rightarrow> vega_array \<Rightarrow> py_error + float_val" where
  "weighted_mse market_prices model_prices vega =
     (case broadcast2 (\<lambda>a b. a - b) market_prices model_prices of
        Inl e \<Rightarrow> Inl e
      | Inr diff \<Rightarrow>
         (case vega of
            Ndarray v \<Rightarrow>
              (case broadcast2 np_divide diff v of
                 Inl e \<Rightarrow> Inl e
               | Inr ratio \<Rightarrow> Inr (np_mean (map fl_square ratio)))
          | PdSeries v \<Rightarrow>
              (if length diff = length v
               then Inr (pd_mean (map fl_square (map2 np_divide diff v)))
               else if length diff = 1
               then Inr (pd_mean (map fl_square (map (\<lambda>y. np_divide (diff ! 0) y) v)))
               else Inl ValueError)))"

text \<open>
  \<open>loss_function(heston_params, df, market_prices, vega_floor=1e-12)\<close>, returning the loss
  together with the number of pricer calls it made. The third argument is rebound from
  the table before its first use; \<open>np.empty_like\<close> leaves the initial contents of
  \<open>model_prices\<close> unspecified, zeros stand for them here.
\<close>

definition loss_function_calls ::
  "batch_pricer \<Rightarrow> real \<Rightarrow> heston_params \<Rightarrow> quote list \<Rightarrow> 'm \<Rightarrow> floor_arg
     \<Rightarrow> py_error + float_val \<times> nat" where
  "loss_function_calls vp S0 hes df market_prices vega_floor =
     (let T = map To_expiry df;
          K = map Strike df;
          r = map Risk_Free df;
          q = map Impl_Yld df;
          market_prices = map Market_price df
      in case np_maximum (map Vega df) vega_floor of
           Inl e \<Rightarrow> Inl e
         | Inr vega \<Rightarrow>
            (let opt_type = map Option_type df;
                 model_prices = replicate (length market_prices) 0;
                 uniq_T = np_unique T
             in case price_by_maturity vp S0 hes T K r q opt_type uniq_T (model_prices, 0) of
                  Inl e \<Rightarrow> Inl e
                | Inr (model_prices, calls) \<Rightarrow>
                   (case weighted_mse market_prices model_prices vega of
                      Inl e \<Rightarrow> Inl e
                    | Inr loss \<Rightarrow> Inr (loss, calls))))"

definition loss_function ::
  "batch_pricer \<Rightarrow> real \<Rightarrow> heston_params \<Rightarrow> quote list \<Rightarrow> 'm \<Rightarrow> floor_arg
     \<Rightarrow> py_error + float_val" where
  "loss_function vp S0 hes df market_prices vega_floor =
     map_sum id fst (loss_function_calls vp S0 hes df market_prices vega_floor)"

text \<open>The default of the fourth argument.\<close>

definition vega_floor_default :: floor_arg where
  "vega_floor_default = Scalar (1 / 10 ^ 12)"

subsection \<open>Call sites of the loss evaluator\<close>

text \<open>
  \<open>option_args = (S0, df['Risk Free'], df['Impl (Yld)'])\<close> and
  \<open>mkt_arr = df['Market price'].to_numpy()\<close>.
\<close>

definition option_args :: "real \<Rightarrow> quote list \<Rightarrow> real \<times> real list \<times> real list" where
  "option_args S0 df = (S0, map Risk_Free df, map Impl_Yld df)"

definition mkt_arr :: "quote list \<Rightarrow> real list" where
  "mkt_arr df = map Market_price df"

text \<open>
  What both optimizers evaluate at a candidate \<open>x\<close>: they are given \<open>loss_function\<close> with
  \<open>args=(df, option_args, mkt_arr)\<close> and call \<open>loss_function(x, *args)\<close>, so the tuple lands
  in the third position and the price array in the fourth.
\<close>

definition optimizer_objective ::
  "batch_pricer \<Rightarrow> real \<Rightarrow> quote list \<Rightarrow> heston_params \<Rightarrow> py_error + float_val" where
  "optimizer_objective vp S0 df x =
     loss_function vp S0 x df (option_args S0 df) (Array (mkt_arr df))"

subsection \<open>The differential-evolution callback\<close>

text \<open>The early-stopping hyperparameters, module constants of the script.\<close>

record de_settings =
  PATIENCE_CB :: nat
  MIN_REL_IMPROV :: real
  MIN_ABS_IMPROV :: real
  MAX_SECONDS_CB :: "real option"

definition script_settings :: de_settings where
  "script_settings =
     \<lparr>PATIENCE_CB = 8, MIN_REL_IMPROV = 1 / 10 ^ 5, MIN_ABS_IMPROV = 1 / 10 ^ 6,
      MAX_SECONDS_CB = None\<rparr>"

text \<open>The dictionary \<open>state\<close>.\<close>

record cb_state =
  best :: float_val
  best_x :: "heston_params option"
  iters :: nat
  stale :: nat

definition state :: cb_state where
  "state = \<lparr>best = PosInf, best_x = None, iters = 0, stale = 0\<rparr>"

text \<open>
  The improvement test of \<open>callback_ga\<close>: the values \<open>rel_impr\<close>, \<open>abs_impr\<close> and \<open>improved\<close>
  computed from the stored best loss \<open>prev\<close> and the current loss \<open>cur\<close>.
\<close>

definition improved :: "de_settings \<Rightarrow> float_val \<Rightarrow> float_val \<Rightarrow> py_error + bool" where
  "improved cfg prev cur =
     (case py_truediv (fl_sub prev cur) (py_max (fl_abs prev) (Num (1 / 10 ^ 12))) of
        Inl e \<Rightarrow> Inl e
      | Inr rel_impr \<Rightarrow>
         (let abs_impr = fl_sub prev cur
          in Inr (fl_less cur prev \<and>
                  (fl_less (Num (MIN_REL_IMPROV cfg)) rel_impr \<or>
                   fl_less (Num (MIN_ABS_IMPROV cfg)) abs_impr))))"

text \<open>The test \<open>(MAX_SECONDS_CB is not None) and (elapsed >= MAX_SECONDS_CB)\<close>.\<close>

definition time_budget_reached :: "de_settings \<Rightarrow> real \<Rightarrow> bool" where
  "time_budget_reached cfg elapsed =
     (case MAX_SECONDS_CB cfg of None \<Rightarrow> False | Some m \<Rightarrow> m \<le> elapsed)"

text \<open>
  The body of \<open>callback_ga\<close> after the loss \<open>cur\<close> at \<open>xk\<close> has been computed. \<open>elapsed\<close> is
  the clock reading \<open>(datetime.now() - init_time).total_seconds()\<close> of this invocation. The
  result is the updated \<open>state\<close> and the value returned to the optimizer.
\<close>

definition callback_ga_body ::
  "de_settings \<Rightarrow> float_val \<Rightarrow> real \<Rightarrow> cb_state \<Rightarrow> py_error + cb_state \<times> bool" where
  "callback_ga_body cfg cur elapsed st =
     (let st1 = st\<lparr>iters := iters st + 1\<rparr>;
          prev = best st1
      in case improved cfg prev cur of
           Inl e \<Rightarrow> Inl e
         | Inr imp \<Rightarrow>
            (let st2 = (if imp then st1\<lparr>best := cur, stale := 0\<rparr>
                        else st1\<lparr>stale := stale st1 + 1\<rparr>)
             in if time_budget_reached cfg elapsed
                then Inr (st2, True)
                else if PATIENCE_CB cfg \<noteq> 0 \<and> PATIENCE_CB cfg \<le> stale st2
                then Inr (st2, True)
                else Inr (st2, False)))"

text \<open>\<open>callback_ga(xk, convergence)\<close>.\<close>

definition callback_ga ::
  "batch_pricer \<Rightarrow> real \<Rightarrow> quote list \<Rightarrow> de_settings \<Rightarrow> heston_params \<Rightarrow> real \<Rightarrow> real
     \<Rightarrow> cb_state \<Rightarrow> py_error + cb_state \<times> bool" where
  "callback_ga vp S0 df cfg xk convergence elapsed st =
     (case loss_function vp S0 xk df (option_args S0 df) (Array (mkt_arr df)) of
        Inl e \<Rightarrow> Inl e
      | Inr cur \<Rightarrow> callback_ga_body cfg cur elapsed st)"

text \<open>
  A run of the callback over the generations of a search: one entry per invocation, with
  the loss at the optimizer's best candidate and the clock reading. The result lists, for
  every invocation, the state it leaves and the value it returns.
\<close>

fun callback_ga_run ::
  "de_settings \<Rightarrow> (float_val \<times> real) list \<Rightarrow> cb_state \<Rightarrow> py_error + (cb_state \<times> bool) list" where
  "callback_ga_run cfg [] st = Inr []"
| "callback_ga_run cfg ((cur, elapsed) # rest) st =
     (case callback_ga_body cfg cur elapsed st of
        Inl e \<Rightarrow> Inl e
      | Inr (st', stop) \<Rightarrow>
         (case callback_ga_run cfg rest st' of
            Inl e \<Rightarrow> Inl e
          | Inr out \<Rightarrow> Inr ((st', stop) # out)))"

subsection \<open>The L-BFGS-B callback\<close>

text \<open>
  \<open>callback(params)\<close>: it appends the loss at \<open>params\<close> to \<open>loss_history\<close>. The fourth
  argument of its call is the column \<open>df['Market price']\<close> itself, not an array.
\<close>

definition callback ::
  "batch_pricer \<Rightarrow> real \<Rightarrow> quote list \<Rightarrow> heston_params \<Rightarrow> float_val list
     \<Rightarrow> py_error + float_val list" where
  "callback vp S0 df hes loss_history =
     (case loss_function vp S0 hes df (option_args S0 df) (Series (map Market_price df)) of
        Inl e \<Rightarrow> Inl e
      | Inr current_loss \<Rightarrow> Inr (loss_history @ [current_loss]))"

subsection \<open>The initial parameters and the bounds\<close>

text \<open>
  \<open>idxmin\<close> of a column with the default index: the first position holding the least
  value; an empty column raises ValueError.
\<close>

fun argmin :: "real list \<Rightarrow> nat" where
  "argmin [] = 0"
| "argmin [x] = 0"
| "argmin (x # y # ys) = (let j = argmin (y # ys) in if x \<le> (y # ys) ! j then 0 else Suc j)"

definition idxmin :: "real list \<Rightarrow> py_error + nat" where
  "idxmin xs = (if xs = [] then Inl ValueError else Inr (argmin xs))"

definition x0 :: "real \<Rightarrow> quote list \<Rightarrow> py_error + heston_params" where
  "x0 S0 df =
     (case idxmin (map (\<lambda>row. \<bar>Strike row - S0\<bar>) df) of
        Inl e \<Rightarrow> Inl e
      | Inr i \<Rightarrow>
         (let iv_atm_guess = IV (df ! i);
              v0_init = max (1 / 10 ^ 6) (iv_atm_guess ^ 2);
              theta_init = v0_init;
              kappa_init = 3;
              sigma_init = 1 / 2;
              rho_init = - (1 / 2)
          in Inr [v0_init, kappa_init, theta_init, sigma_init, rho_init, 0]))"

definition bounds :: "(real \<times> real) list" where
  "bounds =
     [(1 / 10 ^ 4, 1), (1 / 10 ^ 4, 15), (1 / 10 ^ 4, 1), (1 / 10 ^ 4, 2), (- (9 / 10), 1 / 10),
      (0, 0)]"

text \<open>A vector lies in the box when it has one entry per bound, each within its pair.\<close>

definition in_bounds :: "heston_params \<Rightarrow> bool" where
  "in_bounds x = list_all2 (\<lambda>v (lo, hi). lo \<le> v \<and> v \<le> hi) x bounds"

subsection \<open>The parity checks\<close>

text \<open>
  \<open>np.max\<close> of a pandas column: the largest entry, NaN for an empty column.
\<close>

definition series_max :: "real list \<Rightarrow> float_val" where
  "series_max xs = (case xs of [] \<Rightarrow> NaN | x # rest \<Rightarrow> Num (fold max rest x))"

text \<open>The column \<open>Market put price C/P\<close>.\<close>

definition market_put_price_CP :: "real \<Rightarrow> quote \<Rightarrow> real" where
  "market_put_price_CP S0 row =
     Market_call_price row
       + Strike row * exp (- Risk_Free row * To_expiry row)
       - S0 * exp (- Impl_Yld row * To_expiry row)"

text \<open>The boolean printed after "Put/Call parity check (market):".\<close>

definition market_parity_check :: "real \<Rightarrow> quote list \<Rightarrow> bool" where
  "market_parity_check S0 df =
     fl_less (series_max (map (\<lambda>row. Market_put_price row - market_put_price_CP S0 row) df))
       (Num (1 / 10 ^ 10))"

text \<open>
  The check under Heston at the seed: the boolean and the largest absolute difference
  that are printed. \<open>N_default\<close> is the pricer's own default for \<open>N\<close>, which these calls
  leave out.
\<close>

definition heston_parity_diffs ::
  "row_pricer \<Rightarrow> nat \<Rightarrow> real \<Rightarrow> heston_params \<Rightarrow> quote list \<Rightarrow> real list" where
  "heston_parity_diffs vp1 N_default S0 hes df =
     map (\<lambda>row.
       (let option_params = (S0, Risk_Free row, Impl_Yld row);
            heston_call = vp1 (To_expiry row) (Strike row) option_params hes Call N_default;
            heston_put = vp1 (To_expiry row) (Strike row) option_params hes Put N_default;
            heston_put_via_parity =
              heston_call + Strike row * exp (- Risk_Free row * To_expiry row)
                - S0 * exp (- Impl_Yld row * To_expiry row)
        in heston_put - heston_put_via_parity)) df"

definition heston_parity_check ::
  "row_pricer \<Rightarrow> nat \<Rightarrow> real \<Rightarrow> heston_params \<Rightarrow> quote list \<Rightarrow> bool \<times> float_val" where
  "heston_parity_check vp1 N_default S0 hes df =
     (let diffs = heston_parity_diffs vp1 N_default S0 hes df
      in (fl_less (series_max diffs) (Num (1 / 10 ^ 10)), series_max (map abs diffs)))"

subsection \<open>The stages of the script\<close>

text \<open>
  What the script prints about its checks, and the two optimizer invocations, in the
  order in which they happen.
\<close>

datatype event =
    Market_parity_printed bool
  | Batch_size_printed nat
  | Seed_parity_printed bool float_val
  | Global_search_started
  | Local_refinement_started
  | Feller_printed bool

text \<open>The filters on positive prices and on the moneyness band.\<close>

definition price_and_moneyness_filter :: "quote list \<Rightarrow> quote list" where
  "price_and_moneyness_filter df =
     filter (\<lambda>row. 8 / 10 \<le> Moneyness row \<and> Moneyness row \<le> 12 / 10)
       (filter (\<lambda>row. 0 < Market_put_price row \<and> 0 < Market_call_price row) df)"

text \<open>The columns \<open>Option type\<close> and \<open>Market price\<close>, chosen by moneyness.\<close>

definition choose_side :: "quote \<Rightarrow> quote" where
  "choose_side row =
     row\<lparr>Option_type := (if 1 \<le> Moneyness row then Call else Put),
         Market_price :=
           (if 1 \<le> Moneyness row then Market_call_price row else Market_put_price row)\<rparr>"

type_synonym objective = "heston_params \<Rightarrow> py_error + float_val"

text \<open>
  The script from the market parity check to the Feller report. \<open>df0\<close> is the frame once
  the market call and put prices have been computed (the vega column, a row-wise value of
  the Black-Scholes helper, is taken as already filled in). \<open>de\<close> and \<open>lbfgs\<close> stand for
  \<open>differential_evolution\<close> and \<open>minimize\<close>: functions of the objective, the bounds and,
  for the second, the start point; what they do with their callbacks is inside them.
  The result is the list of events up to the end or up to the exception, and the fitted
  parameters or the exception.
\<close>

definition calibration_script ::
  "row_pricer \<Rightarrow> nat \<Rightarrow> batch_pricer
     \<Rightarrow> (objective \<Rightarrow> (real \<times> real) list \<Rightarrow> py_error + heston_params)
     \<Rightarrow> (objective \<Rightarrow> heston_params \<Rightarrow> (real \<times> real) list \<Rightarrow> py_error + heston_params \<times> float_val)
     \<Rightarrow> real \<Rightarrow> quote list \<Rightarrow> event list \<times> (py_error + heston_params)" where
  "calibration_script vp1 N_default vp de lbfgs S0 df0 =
     (let ev1 = [Market_parity_printed (market_parity_check S0 df0)];
          df = map choose_side (price_and_moneyness_filter df0);
          ev2 = ev1 @ [Batch_size_printed (length df)]
      in case x0 S0 df of
           Inl e \<Rightarrow> (ev2, Inl e)
         | Inr seed \<Rightarrow>
            (let (ok, max_diff) = heston_parity_check vp1 N_default S0 seed df;
                 ev3 = ev2 @ [Seed_parity_printed ok max_diff, Global_search_started]
             in case de (optimizer_objective vp S0 df) bounds of
                  Inl e \<Rightarrow> (ev3, Inl e)
                | Inr x_de \<Rightarrow>
                   (let ev4 = ev3 @ [Local_refinement_started]
                    in case lbfgs (optimizer_objective vp S0 df) x_de bounds of
                         Inl e \<Rightarrow> (ev4, Inl e)
                       | Inr (optimal_heston, optimal_loss) \<Rightarrow>
                          (case optimal_heston of
                             [v0_opt, kappa_opt, theta_opt, sigma_opt, rho_opt, lambda_opt] \<Rightarrow>
                               (ev4 @ [Feller_printed (sigma_opt ^ 2 < 2 * kappa_opt * theta_opt)],
                                Inr optimal_heston)
                           | _ \<Rightarrow> (ev4, Inl ValueError)))))"

subsection \<open>Reference formulations\<close>

text \<open>
  The loss as the design states it, for given model prices and a scalar floor:
  the mean over all quotes of \<open>((market_price - model_price) / max(vega, vega_floor))^2\<close>.
\<close>

definition stated_loss :: "real list \<Rightarrow> quote list \<Rightarrow> real \<Rightarrow> float_val" where
  "stated_loss model_prices df vega_floor =
     np_mean (map (\<lambda>(row, p).
        fl_square (np_divide (Market_price row - p) (max (Vega row) vega_floor)))
       (zip df model_prices))"

text \<open>The price of one quote, asked of the pricer for that quote alone.\<close>

definition row_price :: "row_pricer \<Rightarrow> real \<Rightarrow> heston_params \<Rightarrow> quote \<Rightarrow> real" where
  "row_price vp1 S0 hes row =
     vp1 (To_expiry row) (Strike row) (S0, Risk_Free row, Impl_Yld row) hes (Option_type row) 185"

text \<open>
  The row-wise evaluation of the design's equivalence property: every quote is priced
  individually, then the same floor and the same aggregation are applied.
\<close>

definition loss_rowwise ::
  "row_pricer \<Rightarrow> real \<Rightarrow> heston_params \<Rightarrow> quote list \<Rightarrow> floor_arg \<Rightarrow> py_error + float_val" where
  "loss_rowwise vp1 S0 hes df vega_floor =
     (case np_maximum (map Vega df) vega_floor of
        Inl e \<Rightarrow> Inl e
      | Inr vega \<Rightarrow> weighted_mse (map Market_price df) (map (row_price vp1 S0 hes) df) vega)"

text \<open>
  The batched pricer and the single-quote pricer are one oracle: a batch call returns,
  position by position, what the single call returns.
\<close>

definition same_oracle :: "batch_pricer \<Rightarrow> row_pricer \<Rightarrow> bool" where
  "same_oracle vp vp1 =
     (\<forall>T K op hes opt N. length opt = length K \<longrightarrow>
        vp T K op hes opt N = map2 (\<lambda>k s. vp1 T k op hes s N) K opt)"

text \<open>Rows that share a time-to-expiry share the rate and the yield.\<close>

definition one_curve_point_per_maturity :: "quote list \<Rightarrow> bool" where
  "one_curve_point_per_maturity df =
     (\<forall>a \<in> set df. \<forall>b \<in> set df. To_expiry a = To_expiry b \<longrightarrow>
        Risk_Free a = Risk_Free b \<and> Impl_Yld a = Impl_Yld b)"

subsection \<open>Sample inputs\<close>

text \<open>A pricer that returns the same price for every strike, and its single-quote form.\<close>

definition flat_pricer :: "real \<Rightarrow> batch_pricer" where
  "flat_pricer c T K op hes opt N = map (\<lambda>_. c) K"

definition flat_pricer1 :: "real \<Rightarrow> row_pricer" where
  "flat_pricer1 c T k op hes s N = c"

text \<open>
  A pricer that depends on the rate: the value of the option when the underlying does not
  move, with simple discounting of the strike.
\<close>

definition still_pricer1 :: row_pricer where
  "still_pricer1 T k op hes s N =
     (case op of (S, r, q) \<Rightarrow>
        (case s of Call \<Rightarrow> max (S - k / (1 + r * T)) 0 | Put \<Rightarrow> max (k / (1 + r * T) - S) 0))"

definition still_pricer :: batch_pricer where
  "still_pricer T K op hes opt N = map2 (\<lambda>k s. still_pricer1 T k op hes s N) K opt"

text \<open>
  An at-the-money quote at 200 percent implied volatility (spot 100, half a year, zero
  rates): its price is above its vega.
\<close>

definition high_vol_quote :: quote where
  "high_vol_quote =
     \<lparr>Moneyness = 1, To_expiry = 1 / 2, Strike = 100, Risk_Free = 0, Impl_Yld = 0, IV = 2,
      Market_call_price = 52, Market_put_price = 52, Option_type = Call, Market_price = 52,
      Vega = 22\<rparr>"

text \<open>Two quotes whose put and call prices are five apart from parity, in either direction.\<close>

definition put_below_parity :: quote where
  "put_below_parity =
     \<lparr>Moneyness = 1, To_expiry = 1 / 2, Strike = 100, Risk_Free = 0, Impl_Yld = 0, IV = 1 / 5,
      Market_call_price = 6, Market_put_price = 1, Option_type = Call, Market_price = 6,
      Vega = 28\<rparr>"

definition put_above_parity :: quote where
  "put_above_parity =
     \<lparr>Moneyness = 1, To_expiry = 1 / 2, Strike = 100, Risk_Free = 0, Impl_Yld = 0, IV = 1 / 5,
      Market_call_price = 6, Market_put_price = 11, Option_type = Call, Market_price = 6,
      Vega = 28\<rparr>"

text \<open>Two quotes of one maturity with different rates (spot 120).\<close>

definition rate_zero_quote :: quote where
  "rate_zero_quote =
     \<lparr>Moneyness = 1, To_expiry = 1, Strike = 100, Risk_Free = 0, Impl_Yld = 0, IV = 1 / 5,
      Market_call_price = 20, Market_put_price = 0, Option_type = Call, Market_price = 20,
      Vega = 20\<rparr>"

definition rate_tenth_quote :: quote where
  "rate_tenth_quote =
     \<lparr>Moneyness = 1, To_expiry = 1, Strike = 110, Risk_Free = 1 / 10, Impl_Yld = 0, IV = 1 / 5,
      Market_call_price = 20, Market_put_price = 0, Option_type = Call, Market_price = 20,
      Vega = 20\<rparr>"

text \<open>Optimizers that stop at once: at the lower corner of the box, and at the start point.\<close>

definition corner_de :: "objective \<Rightarrow> (real \<times> real) list \<Rightarrow> py_error + heston_params" where
  "corner_de f b = Inr (map fst b)"

definition idle_lbfgs ::
  "objective \<Rightarrow> heston_params \<Rightarrow> (real \<times> real) list \<Rightarrow> py_error + heston_params \<times> float_val" where
  "idle_lbfgs f x b = (case f x of Inl e \<Rightarrow> Inl e | Inr v \<Rightarrow> Inr (x, v))"

text \<open>A table with three quotes and two maturities (spot 100).\<close>

definition high_vol_quote_110 :: quote where
  "high_vol_quote_110 =
     \<lparr>Moneyness = 11 / 10, To_expiry = 1 / 2, Strike = 110, Risk_Free = 0, Impl_Yld = 0, IV = 2,
      Market_call_price = 49, Market_put_price = 59, Option_type = Call, Market_price = 49,
      Vega = 22\<rparr>"

definition one_year_quote :: quote where
  "one_year_quote =
     \<lparr>Moneyness = 1, To_expiry = 1, Strike = 100, Risk_Free = 0, Impl_Yld = 0, IV = 1 / 5,
      Market_call_price = 8, Market_put_price = 8, Option_type = Call, Market_price = 8,
      Vega = 40\<rparr>"

definition two_maturity_table :: "quote list" where
  "two_maturity_table = [high_vol_quote, high_vol_quote_110, one_year_quote]"

section \<open>Properties\<close>

subsection \<open>Float comparisons and the improvement test\<close>

lemma fl_less_trans: "fl_less a b \<Longrightarrow> fl_less b c \<Longrightarrow> fl_less a c"
  by (cases a; cases b; cases c) auto


text \<open>The divisor of the relative improvement is never zero, so the division never raises.\<close>

lemma denominator_not_zero: "py_max (fl_abs prev) (Num (1 / 10 ^ 12)) \<noteq> Num 0"
  by (cases prev) (auto simp: py_max_def)

lemma py_truediv_total: "d \<noteq> Num 0 \<Longrightarrow> \<exists>v. py_truediv n d = Inr v"
  by (cases n; cases d) auto

lemma improved_total: "\<exists>b. improved cfg prev cur = Inr b"
proof -
  obtain v where "py_truediv (fl_sub prev cur) (py_max (fl_abs prev) (Num (1 / 10 ^ 12))) = Inr v"
    using py_truediv_total [OF denominator_not_zero] by blast
  then show ?thesis
    by (simp add: improved_def)
qed

lemma improved_less: "improved cfg prev cur = Inr True \<Longrightarrow> fl_less cur prev"
  by (auto simp: improved_def Let_def split: sum.splits)

text \<open>Against the initial best loss, every finite loss is an improvement.\<close>

lemma improved_from_inf: "improved cfg PosInf (Num c) = Inr True"
  by (simp add: improved_def py_max_def)


subsection \<open>One invocation of the differential-evolution callback\<close>

lemma callback_ga_body_eq:
  assumes "improved cfg (best st) cur = Inr imp"
  shows "callback_ga_body cfg cur elapsed st =
     Inr ((if imp then st\<lparr>iters := iters st + 1, best := cur, stale := 0\<rparr>
           else st\<lparr>iters := iters st + 1, stale := stale st + 1\<rparr>),
          (time_budget_reached cfg elapsed
           \<or> (PATIENCE_CB cfg \<noteq> 0 \<and> PATIENCE_CB cfg \<le> (if imp then 0 else stale st + 1))))"
  using assms by (auto simp: callback_ga_body_def Let_def)

lemma callback_ga_body_total: "\<exists>st' stop. callback_ga_body cfg cur elapsed st = Inr (st', stop)"
  using improved_total [of cfg "best st" cur] callback_ga_body_eq by blast

lemma callback_ga_body_best:
  assumes "callback_ga_body cfg cur elapsed st = Inr (st', stop)"
  shows "best st' = best st \<or> fl_less (best st') (best st)"
proof -
  obtain b where b: "improved cfg (best st) cur = Inr b"
    using improved_total by blast
  show ?thesis
  proof (cases b)
    case True
    then have "fl_less cur (best st)"
      using b improved_less [of cfg "best st" cur] by simp
    moreover have "best st' = cur"
      using assms callback_ga_body_eq [OF b] True by auto
    ultimately show ?thesis by simp
  next
    case False
    then have "best st' = best st"
      using assms callback_ga_body_eq [OF b] by auto
    then show ?thesis by simp
  qed
qed

text \<open>No branch of the callback writes \<open>best_x\<close>.\<close>

lemma callback_ga_body_best_x:
  assumes "callback_ga_body cfg cur elapsed st = Inr (st', stop)"
  shows "best_x st' = best_x st"
proof -
  obtain b where b: "improved cfg (best st) cur = Inr b"
    using improved_total by blast
  show ?thesis
    using assms callback_ga_body_eq [OF b] by (auto split: if_splits)
qed

subsection \<open>Runs of the callback\<close>

lemma callback_ga_run_total:
  "\<exists>out. callback_ga_run cfg inputs st = Inr out \<and> length out = length inputs"
proof (induction inputs arbitrary: st)
  case Nil
  then show ?case by simp
next
  case (Cons a inputs)
  obtain cur elapsed where a: "a = (cur, elapsed)" by (cases a)
  obtain st' stop where s: "callback_ga_body cfg cur elapsed st = Inr (st', stop)"
    using callback_ga_body_total by blast
  obtain out where "callback_ga_run cfg inputs st' = Inr out" "length out = length inputs"
    using Cons.IH by blast
  then show ?case by (simp add: a s)
qed

text \<open>The \<open>k\<close>-th invocation of a run starts from the state the one before it left.\<close>

lemma callback_ga_run_step:
  assumes "callback_ga_run cfg inputs st = Inr out" and "k < length out"
  shows "callback_ga_body cfg (fst (inputs ! k)) (snd (inputs ! k)) ((st # map fst out) ! k)
           = Inr (out ! k)"
  using assms
proof (induction inputs arbitrary: st out k)
  case Nil
  then show ?case by simp
next
  case (Cons a inputs)
  obtain cur elapsed where a: "a = (cur, elapsed)" by (cases a)
  obtain st' stop where s: "callback_ga_body cfg cur elapsed st = Inr (st', stop)"
    using callback_ga_body_total by blast
  obtain out' where o: "callback_ga_run cfg inputs st' = Inr out'"
    using callback_ga_run_total by blast
  have out: "out = (st', stop) # out'"
    using Cons.prems(1) by (simp add: a s o)
  show ?case
  proof (cases k)
    case 0
    then show ?thesis by (simp add: a s out)
  next
    case (Suc j)
    then have "j < length out'"
      using Cons.prems(2) out by simp
    from Cons.IH [OF o this] show ?thesis
      by (simp add: Suc out)
  qed
qed

lemma callback_ga_run_monotone:
  assumes "callback_ga_run cfg inputs st = Inr out" and "j \<le> k" and "k \<le> length out"
  shows "best ((st # map fst out) ! k) = best ((st # map fst out) ! j)
         \<or> fl_less (best ((st # map fst out) ! k)) (best ((st # map fst out) ! j))"
  using assms(2,3)
proof (induction k)
  case 0
  then show ?case by simp
next
  case (Suc k)
  show ?case
  proof (cases "j = Suc k")
    case True
    then show ?thesis by simp
  next
    case False
    then have jk: "j \<le> k" and kl: "k < length out"
      using Suc.prems by auto
    have step: "callback_ga_body cfg (fst (inputs ! k)) (snd (inputs ! k)) ((st # map fst out) ! k)
                  = Inr (fst (out ! k), snd (out ! k))"
      using callback_ga_run_step [OF assms(1) kl] by simp
    have nxt: "(st # map fst out) ! Suc k = fst (out ! k)"
      using kl by simp
    from callback_ga_body_best [OF step] Suc.IH [OF jk] kl
    show ?thesis
      unfolding nxt by (auto intro: fl_less_trans)
  qed
qed


subsection \<open>C3: the early stop\<close>




subsection \<open>C8: the stored best loss never increases\<close>

text \<open>
  C8. Every run of callback invocations, from any state and over any losses and clock
  readings, completes, and along the states it passes through the stored best loss is
  non-increasing: the best loss after \<open>k\<close> invocations equals the one after \<open>j \<le> k\<close>
  invocations or is strictly smaller. The same holds for a single \<open>callback_ga\<close>
  invocation that computes its loss from the quote table, and the initial best loss is
  \<open>+infinity\<close>.
\<close>

theorem best_loss_non_increasing:
  "(\<exists>out. callback_ga_run cfg inputs st = Inr out \<and> length out = length inputs \<and>
      (\<forall>j k. j \<le> k \<and> k \<le> length out \<longrightarrow>
         best ((st # map fst out) ! k) = best ((st # map fst out) ! j)
         \<or> fl_less (best ((st # map fst out) ! k)) (best ((st # map fst out) ! j))))
   \<and> (\<forall>vp S0 df xk convergence elapsed st' stop.
         callback_ga vp S0 df cfg xk convergence elapsed st = Inr (st', stop) \<longrightarrow>
         best st' = best st \<or> fl_less (best st') (best st))
   \<and> best state = PosInf"
proof (intro conjI)
  obtain out where out: "callback_ga_run cfg inputs st = Inr out" "length out = length inputs"
    using callback_ga_run_total by blast
  show "\<exists>out. callback_ga_run cfg inputs st = Inr out \<and> length out = length inputs \<and>
      (\<forall>j k. j \<le> k \<and> k \<le> length out \<longrightarrow>
         best ((st # map fst out) ! k) = best ((st # map fst out) ! j)
         \<or> fl_less (best ((st # map fst out) ! k)) (best ((st # map fst out) ! j)))"
    using out callback_ga_run_monotone [OF out(1)] by blast
next
  show "\<forall>vp S0 df xk convergence elapsed st' stop.
         callback_ga vp S0 df cfg xk convergence elapsed st = Inr (st', stop) \<longrightarrow>
         best st' = best st \<or> fl_less (best st') (best st)"
    by (auto simp: callback_ga_def split: sum.splits dest: callback_ga_body_best)
next
  show "best state = PosInf"
    by (simp add: state_def)
qed

theorem best_loss_non_increasing_witness:
  "\<exists>out. callback_ga_run script_settings [(Num 3, 0), (Num 5, 0), (Num 2, 0)] state = Inr out
     \<and> length out = 3
     \<and> (best (fst (out ! 2)) = PosInf \<or> fl_less (best (fst (out ! 2))) PosInf)"
proof -
  obtain out where out:
    "callback_ga_run script_settings [(Num 3, 0), (Num 5, 0), (Num 2, 0)] state = Inr out"
    "length out = 3"
    "\<forall>j k. j \<le> k \<and> k \<le> length out \<longrightarrow>
         best ((state # map fst out) ! k) = best ((state # map fst out) ! j)
         \<or> fl_less (best ((state # map fst out) ! k)) (best ((state # map fst out) ! j))"
    using best_loss_non_increasing [of script_settings "[(Num 3, 0), (Num 5, 0), (Num 2, 0)]" state]
    by auto
  have "best ((state # map fst out) ! 3) = best ((state # map fst out) ! 0)
         \<or> fl_less (best ((state # map fst out) ! 3)) (best ((state # map fst out) ! 0))"
    using out(3) [rule_format, of 0 3] out(2) by simp
  moreover have "(state # map fst out) ! 3 = fst (out ! 2)"
    using out(2) by (simp add: numeral_3_eq_3 numeral_2_eq_2)
  ultimately show ?thesis
    using out(1,2) by (simp add: state_def)
qed

subsection \<open>The loop over the maturities\<close>

lemma fold_update_length:
  "length (fold (\<lambda>(i, p) b. b[i := p]) ps a) = length a"
  by (induction ps arbitrary: a) (auto split: prod.splits)

lemma fold_update_map:
  assumes "\<forall>i \<in> set idx. i < length a"
  shows "fold (\<lambda>(i, p) b. b[i := p]) (zip idx (map g idx)) a
           = map (\<lambda>k. if k \<in> set idx then g k else a ! k) [0..<length a]"
  using assms
proof (induction idx arbitrary: a)
  case Nil
  then show ?case by (simp add: map_nth)
next
  case (Cons i idx)
  have "fold (\<lambda>(i, p) b. b[i := p]) (zip (i # idx) (map g (i # idx))) a
          = fold (\<lambda>(i, p) b. b[i := p]) (zip idx (map g idx)) (a[i := g i])"
    by simp
  also have "\<dots> = map (\<lambda>k. if k \<in> set idx then g k else a[i := g i] ! k) [0..<length (a[i := g i])]"
    using Cons.prems by (intro Cons.IH) simp
  also have "\<dots> = map (\<lambda>k. if k \<in> set (i # idx) then g k else a ! k) [0..<length a]"
    using Cons.prems by (auto simp: nth_list_update)
  finally show ?case .
qed

lemma np_where_eq_set:
  "set (np_where_eq T Tj) = {i. i < length T \<and> T ! i = Tj}"
  by (auto simp: np_where_eq_def)

lemma np_where_eq_nonempty:
  assumes "Tj \<in> set T"
  shows "np_where_eq T Tj \<noteq> []"
proof -
  obtain i where "i < length T" "T ! i = Tj"
    using assms by (auto simp: in_set_conv_nth)
  then have "i \<in> set (np_where_eq T Tj)"
    by (simp add: np_where_eq_set)
  then show ?thesis by auto
qed

lemma setitem_batch:
  assumes "\<forall>i \<in> set idx. i < length a"
  shows "setitem a idx (map g idx)
           = Inr (map (\<lambda>k. if k \<in> set idx then g k else a ! k) [0..<length a])"
  using fold_update_map [OF assms] by (simp add: setitem_def)

lemma group_prices:
  assumes so: "same_oracle vp vp1"
    and oc: "one_curve_point_per_maturity df"
    and idx: "np_where_eq (map To_expiry df) Tj = i0 # others"
  shows "vp Tj (take_idx (map Strike df) (i0 # others)) (S0, Risk_Free (df ! i0), Impl_Yld (df ! i0))
            hes (take_idx (map Option_type df) (i0 # others)) 185
          = map (\<lambda>i. row_price vp1 S0 hes (df ! i)) (i0 # others)"
proof -
  let ?idx = "i0 # others"
  let ?op = "(S0, Risk_Free (df ! i0), Impl_Yld (df ! i0))"
  have mem: "i < length df \<and> To_expiry (df ! i) = Tj" if "i \<in> set ?idx" for i
  proof -
    have "i \<in> set (np_where_eq (map To_expiry df) Tj)"
      using that by (simp only: idx)
    then show ?thesis
      by (auto simp: np_where_eq_set)
  qed
  have curve: "Risk_Free (df ! i) = Risk_Free (df ! i0) \<and> Impl_Yld (df ! i) = Impl_Yld (df ! i0)"
    if "i \<in> set ?idx" for i
  proof -
    have "df ! i \<in> set df" "df ! i0 \<in> set df" "To_expiry (df ! i) = To_expiry (df ! i0)"
      using mem [OF that] mem [of i0] by simp_all
    then show ?thesis
      using oc unfolding one_curve_point_per_maturity_def by blast
  qed
  have len: "length (take_idx (map Option_type df) ?idx) = length (take_idx (map Strike df) ?idx)"
    unfolding take_idx_def by simp
  have "vp Tj (take_idx (map Strike df) ?idx) ?op hes (take_idx (map Option_type df) ?idx) 185
        = map2 (\<lambda>k s. vp1 Tj k ?op hes s 185)
            (take_idx (map Strike df) ?idx) (take_idx (map Option_type df) ?idx)"
    using so [unfolded same_oracle_def, rule_format, OF len] .
  also have "\<dots> = map (\<lambda>i. vp1 Tj (map Strike df ! i) ?op hes (map Option_type df ! i) 185) ?idx"
    unfolding take_idx_def zip_map_map map_map zip_same_conv_map by simp
  also have "\<dots> = map (\<lambda>i. row_price vp1 S0 hes (df ! i)) ?idx"
  proof (rule map_cong [OF refl])
    fix i assume i: "i \<in> set ?idx"
    show "vp1 Tj (map Strike df ! i) ?op hes (map Option_type df ! i) 185 = row_price vp1 S0 hes (df ! i)"
      using mem [OF i] curve [OF i] by (simp add: row_price_def)
  qed
  finally show ?thesis .
qed


lemma price_by_maturity_step:
  assumes so: "same_oracle vp vp1"
    and oc: "one_curve_point_per_maturity df"
    and mem: "Tj \<in> set (map To_expiry df)"
    and len: "length mp = length df"
  shows "price_by_maturity vp S0 hes (map To_expiry df) (map Strike df) (map Risk_Free df)
            (map Impl_Yld df) (map Option_type df) (Tj # rest) (mp, c)
         = price_by_maturity vp S0 hes (map To_expiry df) (map Strike df) (map Risk_Free df)
            (map Impl_Yld df) (map Option_type df) rest
            (map (\<lambda>k. if To_expiry (df ! k) = Tj then row_price vp1 S0 hes (df ! k) else mp ! k)
               [0..<length df], c + 1)"
proof -
  obtain i0 others where idx: "np_where_eq (map To_expiry df) Tj = i0 # others"
    using np_where_eq_nonempty [OF mem] by (cases "np_where_eq (map To_expiry df) Tj") auto
  have in_idx: "k \<in> set (i0 # others) \<longleftrightarrow> k < length df \<and> To_expiry (df ! k) = Tj" for k
  proof -
    have "k \<in> set (i0 # others) \<longleftrightarrow> k \<in> set (np_where_eq (map To_expiry df) Tj)"
      by (simp only: idx)
    then show ?thesis
      by (auto simp: np_where_eq_set)
  qed
  have i0: "i0 < length df"
    using in_idx [of i0] by simp
  have r: "take_idx (map Risk_Free df) (i0 # others) = Risk_Free (df ! i0) # take_idx (map Risk_Free df) others"
    and q: "take_idx (map Impl_Yld df) (i0 # others) = Impl_Yld (df ! i0) # take_idx (map Impl_Yld df) others"
    using i0 by (simp_all add: take_idx_def)
  have range: "\<forall>i \<in> set (i0 # others). i < length mp"
    using in_idx len by simp
  have st: "setitem mp (i0 # others) (map (\<lambda>i. row_price vp1 S0 hes (df ! i)) (i0 # others))
          = Inr (map (\<lambda>k. if To_expiry (df ! k) = Tj then row_price vp1 S0 hes (df ! k) else mp ! k)
               [0..<length df])"
    unfolding setitem_batch [OF range] len
    by (simp only: sum.inject) (rule map_cong [OF refl], use in_idx in auto)
  show ?thesis
    unfolding price_by_maturity.simps Let_def idx r q list.case
      group_prices [OF so oc idx] st sum.case ..
qed

lemma price_by_maturity_rows:
  assumes so: "same_oracle vp vp1"
    and oc: "one_curve_point_per_maturity df"
    and sub: "set Ts \<subseteq> set (map To_expiry df)"
    and len: "length mp = length df"
  shows "price_by_maturity vp S0 hes (map To_expiry df) (map Strike df) (map Risk_Free df)
            (map Impl_Yld df) (map Option_type df) Ts (mp, c)
         = Inr (map (\<lambda>k. if To_expiry (df ! k) \<in> set Ts then row_price vp1 S0 hes (df ! k) else mp ! k)
                  [0..<length df], c + length Ts)"
  using sub len
proof (induction Ts arbitrary: mp c)
  case Nil
  have "map ((!) mp) [0..<length df] = mp"
    using Nil.prems(2) map_nth [of mp] by simp
  then show ?case by simp
next
  case (Cons Tj Ts)
  let ?mp = "map (\<lambda>k. if To_expiry (df ! k) = Tj then row_price vp1 S0 hes (df ! k) else mp ! k)
               [0..<length df]"
  have mem: "Tj \<in> set (map To_expiry df)" and sub': "set Ts \<subseteq> set (map To_expiry df)"
    using Cons.prems(1) by simp_all
  have len': "length ?mp = length df"
    by simp
  have "map (\<lambda>k. if To_expiry (df ! k) \<in> set Ts then row_price vp1 S0 hes (df ! k) else ?mp ! k)
                  [0..<length df]
        = map (\<lambda>k. if To_expiry (df ! k) \<in> set (Tj # Ts) then row_price vp1 S0 hes (df ! k) else mp ! k)
                  [0..<length df]"
    by (rule map_cong [OF refl]) auto
  then show ?case
    unfolding price_by_maturity_step [OF so oc mem Cons.prems(2)] Cons.IH [OF sub' len']
    by simp
qed

lemma np_unique_set: "set (np_unique xs) = set xs"
  by (simp add: np_unique_def)

lemma np_unique_length: "length (np_unique (map f xs)) = card (f ` set xs)"
  by (simp add: np_unique_def length_remdups_card_conv)

lemma loss_function_calls_rowwise:
  assumes so: "same_oracle vp vp1"
    and oc: "one_curve_point_per_maturity df"
  shows "loss_function_calls vp S0 hes df m vega_floor
           = map_sum id (\<lambda>loss. (loss, card (To_expiry ` set df))) (loss_rowwise vp1 S0 hes df vega_floor)"
proof -
  have rows: "map (\<lambda>k. if To_expiry (df ! k) \<in> set (np_unique (map To_expiry df))
                        then row_price vp1 S0 hes (df ! k) else replicate (length df) 0 ! k)
                [0..<length df] = map (row_price vp1 S0 hes) df"
    by (rule nth_equalityI) (simp_all add: np_unique_set)
  have loop: "price_by_maturity vp S0 hes (map To_expiry df) (map Strike df) (map Risk_Free df)
            (map Impl_Yld df) (map Option_type df) (np_unique (map To_expiry df))
            (replicate (length df) 0, 0)
         = Inr (map (row_price vp1 S0 hes) df, card (To_expiry ` set df))"
    using price_by_maturity_rows [OF so oc, of "np_unique (map To_expiry df)" "replicate (length df) 0" S0 hes 0]
    unfolding rows by (simp add: np_unique_set np_unique_length)
  show ?thesis
    unfolding loss_function_calls_def loss_rowwise_def Let_def length_map loop
    by (simp split: sum.splits)
qed


lemma weighted_mse_same_length:
  assumes "length model = length market" and "length vega = length market"
  shows "weighted_mse market model (Ndarray vega)
           = Inr (np_mean (map fl_square (map2 np_divide (map2 (\<lambda>a b. a - b) market model) vega)))"
  using assms by (simp add: weighted_mse_def broadcast2_def)

lemma np_maximum_scalar: "np_maximum v (Scalar c) = Inr (Ndarray (map (\<lambda>x. max x c) v))"
  by (simp add: np_maximum_def)

lemma np_maximum_same_length:
  "length a = length v \<Longrightarrow> np_maximum v (Array a) = Inr (Ndarray (map2 max v a))"
  by (simp add: np_maximum_def broadcast2_def)

lemma loss_rowwise_scalar:
  "\<exists>loss. loss_rowwise vp1 S0 hes df (Scalar c) = Inr loss"
  by (simp add: loss_rowwise_def np_maximum_scalar weighted_mse_same_length)

lemma price_by_maturity_total:
  assumes shape: "\<forall>T K op opt N. length (vp T K op hes opt N) = length K"
    and sub: "set Ts \<subseteq> set T"
    and lens: "length r = length T" "length q = length T" "length mp = length T"
  shows "\<exists>mp'. price_by_maturity vp S0 hes T K r q opt Ts (mp, c) = Inr (mp', c + length Ts)
               \<and> length mp' = length T"
  using sub lens(3)
proof (induction Ts arbitrary: mp c)
  case Nil
  then show ?case by simp
next
  case (Cons Tj Ts)
  let ?idx = "np_where_eq T Tj"
  have ne: "?idx \<noteq> []"
    using Cons.prems(1) by (simp add: np_where_eq_nonempty)
  then obtain rj rs where r: "take_idx r ?idx = rj # rs"
    by (cases "take_idx r ?idx") (auto simp: take_idx_def)
  from ne obtain qj qs where q: "take_idx q ?idx = qj # qs"
    by (cases "take_idx q ?idx") (auto simp: take_idx_def)
  let ?pj = "vp Tj (take_idx K ?idx) (S0, rj, qj) hes (take_idx opt ?idx) 185"
  have lp: "length ?pj = length ?idx"
    using shape by (simp add: take_idx_def)
  let ?mp = "fold (\<lambda>(i, p) b. b[i := p]) (zip ?idx ?pj) mp"
  have st: "setitem mp ?idx ?pj = Inr ?mp"
    using lp by (simp add: setitem_def)
  have "length ?mp = length T"
    using Cons.prems(2) by (simp add: fold_update_length)
  moreover have "set Ts \<subseteq> set T"
    using Cons.prems(1) by simp
  ultimately obtain mp' where
    "price_by_maturity vp S0 hes T K r q opt Ts (?mp, c + 1) = Inr (mp', c + 1 + length Ts)"
    "length mp' = length T"
    using Cons.IH [of ?mp "c + 1"] by blast
  then show ?case
    by (simp add: r q st Let_def)
qed

lemma loss_function_total:
  assumes shape: "\<forall>T K op opt N. length (vp T K op hes opt N) = length K"
    and floor: "np_maximum (map Vega df) vega_floor = Inr (Ndarray vega)" "length vega = length df"
  shows "\<exists>loss. loss_function vp S0 hes df m vega_floor = Inr loss"
proof -
  obtain mp' where
    loop: "price_by_maturity vp S0 hes (map To_expiry df) (map Strike df) (map Risk_Free df)
             (map Impl_Yld df) (map Option_type df) (np_unique (map To_expiry df))
             (replicate (length df) 0, 0) = Inr (mp', 0 + length (np_unique (map To_expiry df)))"
    and len: "length mp' = length (map To_expiry df)"
    using price_by_maturity_total [where vp = vp and hes = hes and Ts = "np_unique (map To_expiry df)"
        and T = "map To_expiry df" and r = "map Risk_Free df" and q = "map Impl_Yld df"
        and mp = "replicate (length df) 0" and ?S0.0 = S0 and K = "map Strike df"
        and opt = "map Option_type df" and c = 0] shape
    by (auto simp: np_unique_set)
  have "\<exists>loss. weighted_mse (map Market_price df) mp' (Ndarray vega) = Inr loss"
    using len floor(2) by (simp add: weighted_mse_same_length)
  then show ?thesis
    unfolding loss_function_def loss_function_calls_def Let_def length_map floor(1) sum.case loop
    by (auto split: sum.splits)
qed


subsection \<open>Evaluation on sample inputs\<close>

lemmas loss_eval_defs =
  optimizer_objective_def loss_function_def loss_function_calls_def mkt_arr_def option_args_def
  np_maximum_def broadcast2_def np_unique_def np_where_eq_def take_idx_def setitem_def
  weighted_mse_def np_mean_def pd_mean_def np_divide_def vega_floor_default_def

subsection \<open>C7: batched and row-wise evaluation\<close>

text \<open>
  With one oracle behind both pricers and one curve point per maturity, the evaluator is
  the row-wise evaluation, and it calls the pricer once per distinct maturity.
\<close>

lemma loss_function_rowwise:
  assumes "same_oracle vp vp1" and "one_curve_point_per_maturity df"
  shows "loss_function vp S0 hes df m vega_floor = loss_rowwise vp1 S0 hes df vega_floor"
  unfolding loss_function_def loss_function_calls_rowwise [OF assms]
  by (cases "loss_rowwise vp1 S0 hes df vega_floor") simp_all

text \<open>
  C7 (as amended). Let the batched pricer return, position by position, what the
  single-quote pricer returns, and let the rows of the table that share a time-to-expiry
  also share the rate and the yield. Then for every parameter vector and every value of
  the floor argument the evaluator returns exactly what the row-wise evaluation returns
  (the same loss or the same exception); whenever it returns a loss it has called the
  pricer once per distinct time-to-expiry of the table; and with a scalar floor it does
  return a loss.
\<close>

theorem batched_equals_rowwise:
  assumes "same_oracle vp vp1" and "one_curve_point_per_maturity df"
  shows "loss_function vp S0 hes df m vega_floor = loss_rowwise vp1 S0 hes df vega_floor
     \<and> (\<forall>loss calls. loss_function_calls vp S0 hes df m vega_floor = Inr (loss, calls)
           \<longrightarrow> calls = card (To_expiry ` set df))
     \<and> (\<exists>loss. loss_function_calls vp S0 hes df m (Scalar c) = Inr (loss, card (To_expiry ` set df)))"
proof (intro conjI)
  show "loss_function vp S0 hes df m vega_floor = loss_rowwise vp1 S0 hes df vega_floor"
    unfolding loss_function_def loss_function_calls_rowwise [OF assms]
    by (cases "loss_rowwise vp1 S0 hes df vega_floor") simp_all
next
  show "\<forall>loss calls. loss_function_calls vp S0 hes df m vega_floor = Inr (loss, calls)
           \<longrightarrow> calls = card (To_expiry ` set df)"
    unfolding loss_function_calls_rowwise [OF assms]
    by (cases "loss_rowwise vp1 S0 hes df vega_floor") simp_all
next
  obtain loss where "loss_rowwise vp1 S0 hes df (Scalar c) = Inr loss"
    using loss_rowwise_scalar by blast
  then show "\<exists>loss. loss_function_calls vp S0 hes df m (Scalar c) = Inr (loss, card (To_expiry ` set df))"
    unfolding loss_function_calls_rowwise [OF assms] by simp
qed

theorem batched_equals_rowwise_witness:
  "same_oracle still_pricer still_pricer1 \<and> one_curve_point_per_maturity two_maturity_table
   \<and> loss_function still_pricer 100 [4, 3, 4, 1 / 2, - (1 / 2), 0] two_maturity_table
        (option_args 100 two_maturity_table) vega_floor_default
      = loss_rowwise still_pricer1 100 [4, 3, 4, 1 / 2, - (1 / 2), 0] two_maturity_table
          vega_floor_default
   \<and> (\<exists>loss. loss_function_calls still_pricer 100 [4, 3, 4, 1 / 2, - (1 / 2), 0] two_maturity_table
        (option_args 100 two_maturity_table) vega_floor_default = Inr (loss, 2))"
proof -
  have so: "same_oracle still_pricer still_pricer1"
    by (simp add: same_oracle_def still_pricer_def)
  have oc: "one_curve_point_per_maturity two_maturity_table"
    by (simp add: one_curve_point_per_maturity_def two_maturity_table_def high_vol_quote_def
          high_vol_quote_110_def one_year_quote_def)
  have card: "card (To_expiry ` set two_maturity_table) = 2"
    by (simp add: two_maturity_table_def high_vol_quote_def high_vol_quote_110_def one_year_quote_def)
  show ?thesis
    using batched_equals_rowwise [OF so oc, of 100 "[4, 3, 4, 1 / 2, - (1 / 2), 0]"
        "option_args 100 two_maturity_table" vega_floor_default "1 / 10 ^ 12"] so oc
    by (simp add: card vega_floor_default_def)
qed

text \<open>
  Without the shared curve point the two evaluations differ: the loop prices a whole
  maturity group with the rate and the yield of its first row. Two quotes of one maturity
  with rates 0 and 0.1, priced by a rate-sensitive oracle, give the loss 1/8 batched and
  0 row by row.
\<close>

theorem batched_differs_from_rowwise:
  "same_oracle still_pricer still_pricer1
   \<and> loss_function still_pricer 120 [4, 3, 4, 1 / 2, - (1 / 2), 0] [rate_zero_quote, rate_tenth_quote]
        (option_args 120 [rate_zero_quote, rate_tenth_quote]) vega_floor_default = Inr (Num (1 / 8))
   \<and> loss_rowwise still_pricer1 120 [4, 3, 4, 1 / 2, - (1 / 2), 0] [rate_zero_quote, rate_tenth_quote]
        vega_floor_default = Inr (Num 0)"
proof (intro conjI)
  show "same_oracle still_pricer still_pricer1"
    by (simp add: same_oracle_def still_pricer_def)
  show "loss_function still_pricer 120 [4, 3, 4, 1 / 2, - (1 / 2), 0] [rate_zero_quote, rate_tenth_quote]
        (option_args 120 [rate_zero_quote, rate_tenth_quote]) vega_floor_default = Inr (Num (1 / 8))"
    by (simp add: loss_eval_defs still_pricer_def still_pricer1_def rate_zero_quote_def
          rate_tenth_quote_def power2_eq_square)
  show "loss_rowwise still_pricer1 120 [4, 3, 4, 1 / 2, - (1 / 2), 0] [rate_zero_quote, rate_tenth_quote]
        vega_floor_default = Inr (Num 0)"
    by (simp add: loss_rowwise_def row_price_def loss_eval_defs still_pricer1_def rate_zero_quote_def
          rate_tenth_quote_def)
qed

subsection \<open>C1: the loss at the call sites\<close>

lemma stated_loss_rows:
  "map fl_square (map2 np_divide (map2 (\<lambda>a b. a - b) (map Market_price df) (map f df))
       (map (\<lambda>x. max x c) (map Vega df)))
     = map (\<lambda>(row, p). fl_square (np_divide (Market_price row - p) (max (Vega row) c)))
         (zip df (map f df))"
  by (induction df) simp_all

text \<open>
  Called with a scalar floor, as its signature intends, the evaluator computes the loss
  the design states.
\<close>

lemma loss_function_scalar_floor:
  assumes "same_oracle vp vp1" and "one_curve_point_per_maturity df"
  shows "loss_function vp S0 hes df m (Scalar c)
           = Inr (stated_loss (map (row_price vp1 S0 hes) df) df c)"
proof -
  have "loss_rowwise vp1 S0 hes df (Scalar c)
          = Inr (np_mean (map fl_square (map2 np_divide
               (map2 (\<lambda>a b. a - b) (map Market_price df) (map (row_price vp1 S0 hes) df))
               (map (\<lambda>x. max x c) (map Vega df)))))"
    unfolding loss_rowwise_def np_maximum_scalar sum.case
    by (rule weighted_mse_same_length) simp_all
  then show ?thesis
    unfolding loss_function_rowwise [OF assms] stated_loss_rows stated_loss_def .
qed

lemma price_floor_rows:
  "map fl_square (map2 np_divide (map2 (\<lambda>a b. a - b) (map Market_price df) (map f df))
       (map2 max (map Vega df) (map Market_price df)))
     = map (\<lambda>row. fl_square (np_divide (Market_price row - f row)
                                (max (Vega row) (Market_price row)))) df"
  by (induction df) simp_all

text \<open>
  At the call sites the fourth argument is the array of market prices, so each quote is
  weighted by the larger of its vega and its own market price.
\<close>

lemma optimizer_objective_floor:
  assumes "same_oracle vp vp1" and "one_curve_point_per_maturity df"
  shows "optimizer_objective vp S0 df hes
           = Inr (np_mean (map (\<lambda>row. fl_square (np_divide
                     (Market_price row - row_price vp1 S0 hes row)
                     (max (Vega row) (Market_price row)))) df))"
proof -
  have "np_maximum (map Vega df) (Array (mkt_arr df))
          = Inr (Ndarray (map2 max (map Vega df) (map Market_price df)))"
    unfolding mkt_arr_def by (rule np_maximum_same_length) simp
  then have "loss_rowwise vp1 S0 hes df (Array (mkt_arr df))
          = weighted_mse (map Market_price df) (map (row_price vp1 S0 hes) df)
              (Ndarray (map2 max (map Vega df) (map Market_price df)))"
    unfolding loss_rowwise_def by simp
  also have "\<dots> = Inr (np_mean (map fl_square (map2 np_divide
               (map2 (\<lambda>a b. a - b) (map Market_price df) (map (row_price vp1 S0 hes) df))
               (map2 max (map Vega df) (map Market_price df)))))"
    by (rule weighted_mse_same_length) simp_all
  finally show ?thesis
    unfolding optimizer_objective_def loss_function_rowwise [OF assms] price_floor_rows .
qed

text \<open>
  The L-BFGS-B callback passes the pandas column itself, so its mean skips a row whose
  quotient is undefined (\<open>0 / 0\<close>), where the optimizers' objective is NaN.
\<close>

lemma callback_mean_skips_undefined_rows:
  "optimizer_objective (flat_pricer 0) 100
     [high_vol_quote, one_year_quote\<lparr>Market_price := 0, Vega := 0\<rparr>] hes = Inr NaN
   \<and> callback (flat_pricer 0) 100
       [high_vol_quote, one_year_quote\<lparr>Market_price := 0, Vega := 0\<rparr>] hes [] = Inr [Num 1]"
  by (simp add: callback_def loss_eval_defs flat_pricer_def high_vol_quote_def one_year_quote_def)

text \<open>
  C1. The claim holds for a call that leaves the floor at its default, and fails at the
  three call sites of the script. One quote with market price 52 and vega 22, model price
  30: the stated loss with floor \<open>1e-12\<close> is \<open>((52 - 30) / 22)^2 = 1\<close>, and
  \<open>loss_function\<close> with the default floor returns it; the objective handed to both
  optimizers, the loss computed in \<open>callback_ga\<close> and the loss appended by \<open>callback\<close> are
  all \<open>((52 - 30) / max(22, 52))^2 = 121/676\<close>, because the market-price array arrives in
  the position of \<open>vega_floor\<close>.
\<close>

theorem call_sites_floor_by_price:
  "optimizer_objective (flat_pricer 30) 100 [high_vol_quote] [4, 3, 4, 1 / 2, - (1 / 2), 0]
     = Inr (Num (121 / 676))
   \<and> map_sum id (best \<circ> fst)
        (callback_ga (flat_pricer 30) 100 [high_vol_quote] script_settings
           [4, 3, 4, 1 / 2, - (1 / 2), 0] 0 0 state) = Inr (Num (121 / 676))
   \<and> callback (flat_pricer 30) 100 [high_vol_quote] [4, 3, 4, 1 / 2, - (1 / 2), 0] []
     = Inr [Num (121 / 676)]
   \<and> stated_loss [30] [high_vol_quote] (1 / 10 ^ 12) = Num 1
   \<and> loss_function (flat_pricer 30) 100 [4, 3, 4, 1 / 2, - (1 / 2), 0] [high_vol_quote]
        (option_args 100 [high_vol_quote]) vega_floor_default = Inr (Num 1)"
proof -
  have l: "loss_function (flat_pricer 30) 100 [4, 3, 4, 1 / 2, - (1 / 2), 0] [high_vol_quote]
             (option_args 100 [high_vol_quote]) (Array (mkt_arr [high_vol_quote]))
           = Inr (Num (121 / 676))"
    by (simp add: loss_eval_defs flat_pricer_def high_vol_quote_def power2_eq_square)
  have i: "improved script_settings (best state) (Num (121 / 676)) = Inr True"
    by (simp add: state_def improved_from_inf)
  have c: "callback_ga (flat_pricer 30) 100 [high_vol_quote] script_settings
           [4, 3, 4, 1 / 2, - (1 / 2), 0] 0 0 state
          = Inr (state\<lparr>iters := iters state + 1, best := Num (121 / 676), stale := 0\<rparr>, False)"
    unfolding callback_ga_def l
    using callback_ga_body_eq [OF i, of 0]
    by (simp add: state_def script_settings_def time_budget_reached_def)
  have s: "stated_loss [30] [high_vol_quote] (1 / 10 ^ 12) = Num 1"
    by (simp add: stated_loss_def np_mean_def np_divide_def high_vol_quote_def)
  have d: "loss_function (flat_pricer 30) 100 [4, 3, 4, 1 / 2, - (1 / 2), 0] [high_vol_quote]
        (option_args 100 [high_vol_quote]) vega_floor_default = Inr (Num 1)"
    by (simp add: loss_eval_defs flat_pricer_def high_vol_quote_def)
  have k: "loss_function (flat_pricer 30) 100 [4, 3, 4, 1 / 2, - (1 / 2), 0] [high_vol_quote]
             (option_args 100 [high_vol_quote]) (Series (map Market_price [high_vol_quote]))
           = Inr (Num (121 / 676))"
    by (simp add: loss_eval_defs flat_pricer_def high_vol_quote_def power2_eq_square)
  show ?thesis
    using l c s d k by (simp add: optimizer_objective_def callback_def mkt_arr_def)
qed

subsection \<open>C10: the third argument\<close>

text \<open>
  C10. The result of \<open>loss_function\<close> does not depend on its third argument: two calls that
  differ only there return the same loss or the same exception. The argument is rebound
  to the table's market-price column before it is read.
\<close>

theorem loss_function_ignores_market_prices:
  "loss_function vp S0 hes df m1 vega_floor = loss_function vp S0 hes df m2 vega_floor"
  by (simp add: loss_function_def loss_function_calls_def)

subsection \<open>C9: vectors outside the bounds\<close>

text \<open>
  C9 (as amended). The evaluator has no bounds check. For every parameter vector, inside
  the box or outside it, for which the pricer returns one price per strike, the
  evaluator computes and returns a loss, both when called with a scalar floor and when
  called as the optimizers call it. Keeping candidates inside the box is left to the
  optimizers.
\<close>

theorem loss_function_has_no_bounds_check:
  assumes "\<forall>T K op opt N. length (vp T K op hes opt N) = length K"
  shows "(\<exists>loss. loss_function vp S0 hes df m (Scalar c) = Inr loss)
       \<and> (\<exists>loss. optimizer_objective vp S0 df hes = Inr loss)"
proof
  show "\<exists>loss. loss_function vp S0 hes df m (Scalar c) = Inr loss"
    using loss_function_total [where vp = vp and hes = hes and vega_floor = "Scalar c"
        and vega = "map (\<lambda>x. max x c) (map Vega df)" and df = df] assms
    by (simp add: np_maximum_scalar)
next
  have "np_maximum (map Vega df) (Array (mkt_arr df))
          = Inr (Ndarray (map2 max (map Vega df) (mkt_arr df)))"
    by (rule np_maximum_same_length) (simp add: mkt_arr_def)
  then show "\<exists>loss. optimizer_objective vp S0 df hes = Inr loss"
    unfolding optimizer_objective_def
    using loss_function_total [where vp = vp and hes = hes and vega_floor = "Array (mkt_arr df)"
        and vega = "map2 max (map Vega df) (mkt_arr df)" and df = df] assms
    by (simp add: mkt_arr_def)
qed


theorem loss_function_has_no_bounds_check_witness:
  "\<not> in_bounds [- 1, 3, 5, 1 / 2, - (1 / 2), 0]
   \<and> (\<forall>T K op opt N. length (flat_pricer 30 T K op [- 1, 3, 5, 1 / 2, - (1 / 2), 0] opt N) = length K)
   \<and> (\<exists>loss. loss_function (flat_pricer 30) 100 [- 1, 3, 5, 1 / 2, - (1 / 2), 0] two_maturity_table
               (option_args 100 two_maturity_table) vega_floor_default = Inr loss)
   \<and> (\<exists>loss. optimizer_objective (flat_pricer 30) 100 two_maturity_table
               [- 1, 3, 5, 1 / 2, - (1 / 2), 0] = Inr loss)"
proof -
  have shape: "\<forall>T K op opt N.
      length (flat_pricer 30 T K op [- 1, 3, 5, 1 / 2, - (1 / 2), 0] opt N) = length K"
    by (simp add: flat_pricer_def)
  have nb: "\<not> in_bounds [- 1, 3, 5, 1 / 2, - (1 / 2), 0]"
    by (simp add: in_bounds_def bounds_def)
  show ?thesis
    using loss_function_has_no_bounds_check [where vp = "flat_pricer 30"
        and hes = "[- 1, 3, 5, 1 / 2, - (1 / 2), 0]" and ?S0.0 = 100 and df = two_maturity_table
        and m = "option_args 100 two_maturity_table" and c = "1 / 10 ^ 12"] shape nb
    unfolding vega_floor_default_def by blast
qed


text \<open>
  A vector with a negative initial variance and a long-run variance of 5 is outside the
  box, and the evaluator returns the loss 1 for it.
\<close>

theorem out_of_bounds_vector_gets_a_loss:
  "\<not> in_bounds [- 1, 3, 5, 1 / 2, - (1 / 2), 0]
   \<and> loss_function (flat_pricer 30) 100 [- 1, 3, 5, 1 / 2, - (1 / 2), 0] [high_vol_quote]
        (option_args 100 [high_vol_quote]) vega_floor_default = Inr (Num 1)"
  by (simp add: loss_eval_defs flat_pricer_def high_vol_quote_def in_bounds_def bounds_def)

subsection \<open>C2: what an accepted improvement updates\<close>

text \<open>
  C2. The acceptance test, the reset of the stale counter and the update of the best loss
  are as claimed (\<open>improved_finite\<close>, \<open>callback_ga_body_eq\<close>), but the stored best vector is
  never written (\<open>callback_ga_body_best_x\<close>). On the first invocation of a fresh controller
  at the vector \<open>xk = [4, 3, 4, 0.5, -0.5, 0]\<close>, the loss 121/676 is accepted against
  \<open>+infinity\<close>: \<open>best\<close> becomes 121/676 and \<open>stale\<close> is 0, while \<open>best_x\<close> is still None, not
  \<open>xk\<close>.
\<close>

theorem callback_ga_leaves_best_x_unset:
  "callback_ga (flat_pricer 30) 100 [high_vol_quote] script_settings
     [4, 3, 4, 1 / 2, - (1 / 2), 0] 0 0 state
     = Inr (\<lparr>best = Num (121 / 676), best_x = None, iters = 1, stale = 0\<rparr>, False)"
proof -
  have l: "loss_function (flat_pricer 30) 100 [4, 3, 4, 1 / 2, - (1 / 2), 0] [high_vol_quote]
             (option_args 100 [high_vol_quote]) (Array (mkt_arr [high_vol_quote]))
           = Inr (Num (121 / 676))"
    by (simp add: loss_eval_defs flat_pricer_def high_vol_quote_def power2_eq_square)
  have i: "improved script_settings (best state) (Num (121 / 676)) = Inr True"
    by (simp add: state_def improved_from_inf)
  show ?thesis
    unfolding callback_ga_def l
    using callback_ga_body_eq [OF i, of 0]
    by (simp add: state_def script_settings_def time_budget_reached_def)
qed

subsection \<open>C4: the market parity check\<close>

text \<open>
  C4. The check compares the largest signed difference \<open>put - (call + K e^(-rT) - S e^(-qT))\<close>
  with \<open>1e-10\<close>; it takes no absolute value. A quote whose put price is 5 below its
  parity value (call 6, put 1, strike and spot 100, zero rates) passes the check although
  the absolute difference is 5.
\<close>

theorem market_parity_check_one_sided:
  "market_parity_check 100 [put_below_parity]
   \<and> \<bar>Market_put_price put_below_parity - market_put_price_CP 100 put_below_parity\<bar> = 5"
  by (simp add: market_parity_check_def series_max_def market_put_price_CP_def put_below_parity_def)

subsection \<open>C6: the seed\<close>

lemma argmin_less: "xs \<noteq> [] \<Longrightarrow> argmin xs < length xs"
  by (induction xs rule: argmin.induct) (auto simp: Let_def)

lemma argmin_least: "j < length xs \<Longrightarrow> xs ! argmin xs \<le> xs ! j"
proof (induction xs arbitrary: j rule: argmin.induct)
  case 1
  then show ?case by simp
next
  case (2 x)
  then show ?case by simp
next
  case (3 x y ys)
  let ?m = "(y # ys) ! argmin (y # ys)"
  show ?case
  proof (cases j)
    case 0
    then show ?thesis by (simp add: Let_def)
  next
    case (Suc k)
    then have "?m \<le> (y # ys) ! k"
      using "3.prems" by (intro "3.IH") simp
    then show ?thesis
      using Suc by (auto simp: Let_def)
  qed
qed

lemma argmin_first: "j < argmin xs \<Longrightarrow> xs ! argmin xs < xs ! j"
proof (induction xs arbitrary: j rule: argmin.induct)
  case 1
  then show ?case by simp
next
  case (2 x)
  then show ?case by simp
next
  case (3 x y ys)
  show ?case
  proof (cases "x \<le> (y # ys) ! argmin (y # ys)")
    case True
    then show ?thesis using "3.prems" by (simp add: Let_def)
  next
    case False
    then have am: "argmin (x # y # ys) = Suc (argmin (y # ys))"
      by (simp add: Let_def)
    show ?thesis
    proof (cases j)
      case 0
      then show ?thesis using False am by simp
    next
      case (Suc k)
      then have "k < argmin (y # ys)"
        using "3.prems" am by simp
      from "3.IH" [OF this] show ?thesis
        using Suc am by simp
    qed
  qed
qed

lemma in_bounds_seed:
  "in_bounds [max (1 / 10 ^ 6) v, 3, max (1 / 10 ^ 6) v, 1 / 2, - (1 / 2), 0]
     \<longleftrightarrow> 1 / 10 ^ 4 \<le> v \<and> v \<le> 1"
  by (auto simp: in_bounds_def bounds_def max_def)

text \<open>
  C6 (as amended). For every non-empty table the seed is computed from the first quote
  whose strike is closest to spot over the whole table: \<open>v0 = max(1e-6, iv^2)\<close> with that
  quote's implied volatility, \<open>theta = v0\<close>, \<open>kappa = 3\<close>, \<open>sigma = 0.5\<close>, \<open>rho = -0.5\<close>,
  \<open>lambda = 0\<close>. The seed lies in the bounds box exactly when \<open>1e-4 \<le> iv^2 \<le> 1\<close>; it is
  not clipped to the box.
\<close>

theorem seed_at_nearest_strike:
  assumes "df \<noteq> []"
  shows "\<exists>i<length df.
           (\<forall>j<length df. \<bar>Strike (df ! i) - S0\<bar> \<le> \<bar>Strike (df ! j) - S0\<bar>)
         \<and> (\<forall>j<i. \<bar>Strike (df ! i) - S0\<bar> < \<bar>Strike (df ! j) - S0\<bar>)
         \<and> x0 S0 df = Inr [max (1 / 10 ^ 6) ((IV (df ! i)) ^ 2), 3,
                            max (1 / 10 ^ 6) ((IV (df ! i)) ^ 2), 1 / 2, - (1 / 2), 0]
         \<and> (in_bounds [max (1 / 10 ^ 6) ((IV (df ! i)) ^ 2), 3,
                        max (1 / 10 ^ 6) ((IV (df ! i)) ^ 2), 1 / 2, - (1 / 2), 0]
              \<longleftrightarrow> 1 / 10 ^ 4 \<le> (IV (df ! i)) ^ 2 \<and> (IV (df ! i)) ^ 2 \<le> 1)"
proof -
  let ?d = "map (\<lambda>row. \<bar>Strike row - S0\<bar>) df"
  let ?i = "argmin ?d"
  have i: "?i < length df"
    using argmin_less [of ?d] assms by simp
  have least: "\<forall>j<length df. \<bar>Strike (df ! ?i) - S0\<bar> \<le> \<bar>Strike (df ! j) - S0\<bar>"
    using argmin_least [of _ ?d] i by auto
  have first: "\<forall>j<?i. \<bar>Strike (df ! ?i) - S0\<bar> < \<bar>Strike (df ! j) - S0\<bar>"
    using argmin_first [of _ ?d] i by auto
  have seed: "x0 S0 df = Inr [max (1 / 10 ^ 6) ((IV (df ! ?i)) ^ 2), 3,
                            max (1 / 10 ^ 6) ((IV (df ! ?i)) ^ 2), 1 / 2, - (1 / 2), 0]"
    using assms by (simp add: x0_def idxmin_def Let_def)
  show ?thesis
    using i least first seed in_bounds_seed [of "(IV (df ! ?i)) ^ 2"] by blast
qed

theorem seed_at_nearest_strike_witness:
  "[high_vol_quote_110, one_year_quote] \<noteq> []
   \<and> x0 100 [high_vol_quote_110, one_year_quote] = Inr [1 / 25, 3, 1 / 25, 1 / 2, - (1 / 2), 0]
   \<and> in_bounds [1 / 25, 3, 1 / 25, 1 / 2, - (1 / 2), 0]"
proof -
  let ?t = "[high_vol_quote_110, one_year_quote]"
  have ne: "?t \<noteq> []"
    by simp
  obtain i where i: "i < length ?t"
    and least: "\<forall>j<length ?t. \<bar>Strike (?t ! i) - 100\<bar> \<le> \<bar>Strike (?t ! j) - 100\<bar>"
    and seed: "x0 100 ?t = Inr [max (1 / 10 ^ 6) ((IV (?t ! i)) ^ 2), 3,
                                max (1 / 10 ^ 6) ((IV (?t ! i)) ^ 2), 1 / 2, - (1 / 2), 0]"
    and ib: "in_bounds [max (1 / 10 ^ 6) ((IV (?t ! i)) ^ 2), 3,
                        max (1 / 10 ^ 6) ((IV (?t ! i)) ^ 2), 1 / 2, - (1 / 2), 0]
              \<longleftrightarrow> 1 / 10 ^ 4 \<le> (IV (?t ! i)) ^ 2 \<and> (IV (?t ! i)) ^ 2 \<le> 1"
    using seed_at_nearest_strike [OF ne, of 100] by blast
  have "i = 1"
    using i least [rule_format, of 1]
    by (cases i) (simp_all add: high_vol_quote_110_def one_year_quote_def)
  then have iv: "IV (?t ! i) = 1 / 5"
    by (simp add: one_year_quote_def)
  have v: "max (1 / 10 ^ 6) ((1 / 5 :: real) ^ 2) = 1 / 25"
    by (simp add: power2_eq_square)
  show ?thesis
    using seed ib unfolding iv v by (simp add: power2_eq_square)
qed

text \<open>
  A single quote at 200 percent implied volatility gives \<open>v0 = theta = 4\<close>, above the
  upper bound 1.
\<close>

theorem seed_outside_bounds:
  "x0 100 [high_vol_quote] = Inr [4, 3, 4, 1 / 2, - (1 / 2), 0]
   \<and> \<not> in_bounds [4, 3, 4, 1 / 2, - (1 / 2), 0]"
  by (simp add: x0_def idxmin_def high_vol_quote_def in_bounds_def bounds_def Let_def)

subsection \<open>C5: the parity check and the optimizers\<close>

lemma x0_nonempty: "df \<noteq> [] \<Longrightarrow> \<exists>seed. x0 S0 df = Inr seed"
  by (simp add: x0_def idxmin_def Let_def)

text \<open>
  C5 (as amended). The outcome of the market parity check is reported and nothing more:
  the first event of every run is the printed outcome, and whenever the filtered table is
  not empty the run starts the global search, and starts the local refinement as soon as
  the global search returns, whatever the outcome of the check was.
\<close>

theorem parity_outcome_does_not_gate_the_run:
  assumes "price_and_moneyness_filter df0 \<noteq> []"
  shows "hd (fst (calibration_script vp1 N vp de lbfgs S0 df0))
           = Market_parity_printed (market_parity_check S0 df0)
       \<and> Global_search_started \<in> set (fst (calibration_script vp1 N vp de lbfgs S0 df0))
       \<and> (\<forall>x. de (optimizer_objective vp S0 (map choose_side (price_and_moneyness_filter df0))) bounds
                 = Inr x
            \<longrightarrow> Local_refinement_started \<in> set (fst (calibration_script vp1 N vp de lbfgs S0 df0)))"
proof -
  obtain seed where seed: "x0 S0 (map choose_side (price_and_moneyness_filter df0)) = Inr seed"
    using x0_nonempty [of "map choose_side (price_and_moneyness_filter df0)"] assms by auto
  show ?thesis
    unfolding calibration_script_def Let_def seed sum.case
    by (auto split: sum.splits prod.splits list.splits)
qed


theorem parity_outcome_does_not_gate_the_run_witness:
  "price_and_moneyness_filter [put_below_parity, put_above_parity] \<noteq> []
   \<and> Global_search_started \<in> set (fst (calibration_script (flat_pricer1 6) 128 (flat_pricer 6)
         corner_de idle_lbfgs 100 [put_below_parity, put_above_parity]))
   \<and> Local_refinement_started \<in> set (fst (calibration_script (flat_pricer1 6) 128 (flat_pricer 6)
         corner_de idle_lbfgs 100 [put_below_parity, put_above_parity]))"
proof -
  have ne: "price_and_moneyness_filter [put_below_parity, put_above_parity] \<noteq> []"
    by (simp add: price_and_moneyness_filter_def put_below_parity_def)
  show ?thesis
    using parity_outcome_does_not_gate_the_run [OF ne, of "flat_pricer1 6" 128 "flat_pricer 6"
        corner_de idle_lbfgs 100] ne
    by (simp add: corner_de_def)
qed

text \<open>
  A quote whose put price is 5 above its parity value fails the check (False is
  printed), and the run goes on through both optimizers to the Feller report.
\<close>

theorem run_proceeds_after_failed_parity_check:
  "\<not> market_parity_check 100 [put_above_parity]
   \<and> fst (calibration_script (flat_pricer1 6) 128 (flat_pricer 6) corner_de idle_lbfgs 100
            [put_above_parity])
       = [Market_parity_printed False, Batch_size_printed 1, Seed_parity_printed True (Num 0),
          Global_search_started, Local_refinement_started, Feller_printed True]"
proof -
  have c: "\<not> market_parity_check 100 [put_above_parity]"
    by (simp add: market_parity_check_def series_max_def market_put_price_CP_def put_above_parity_def)
  have f: "map choose_side (price_and_moneyness_filter [put_above_parity]) = [put_above_parity]"
    by (simp add: price_and_moneyness_filter_def choose_side_def put_above_parity_def)
  have s: "x0 100 [put_above_parity] = Inr [1 / 25, 3, 1 / 25, 1 / 2, - (1 / 2), 0]"
    by (simp add: x0_def idxmin_def put_above_parity_def power2_eq_square Let_def)
  have h: "heston_parity_check (flat_pricer1 6) 128 100 [1 / 25, 3, 1 / 25, 1 / 2, - (1 / 2), 0]
             [put_above_parity] = (True, Num 0)"
    by (simp add: heston_parity_check_def heston_parity_diffs_def series_max_def flat_pricer1_def
          put_above_parity_def)
  have o: "optimizer_objective (flat_pricer 6) 100 [put_above_parity] (map fst bounds) = Inr (Num 0)"
    by (simp add: loss_eval_defs flat_pricer_def put_above_parity_def bounds_def)
  show ?thesis
    unfolding calibration_script_def Let_def f s
    using c o h by (simp add: corner_de_def idle_lbfgs_def bounds_def power2_eq_square)
qed

end
